theory Spec2Isabelle
  imports
    Complex_Main
    "HOL-Library.Char_ord"
    "HOL-Library.List_Lexorder"
    "HOL-Library.Multiset"
    "HOL-Library.AList"
begin

section \<open>Python values used by the plugin\<close>

text \<open>
  Python strings are compared code point by code point; with \<open>Char_ord\<close> and
  \<open>List_Lexorder\<close> the type \<open>string\<close> carries that lexicographic order, so Python's
  \<open>sorted\<close> on strings (and on integers) is \<open>sort\<close>.
\<close>

datatype error = TypeError | ValueError | KeyError | StopIteration

text \<open>\<open>str(n)\<close> for an integer: decimal digits, with a leading minus sign.\<close>

function str_nat :: "nat \<Rightarrow> string" where
  "str_nat n =
     (if n < 10 then [''0123456789'' ! n]
      else str_nat (n div 10) @ [''0123456789'' ! (n mod 10)])"
  by pat_completeness auto
termination
  by (relation "measure (\<lambda>n. n)") auto

declare str_nat.simps [simp del]

definition str_int :: "int \<Rightarrow> string" where
  "str_int i = (if i < 0 then CHR ''-'' # str_nat (nat (- i)) else str_nat (nat i))"

text \<open>An identifier handed to \<open>get_structpair_key\<close> is a string or an integer.\<close>

datatype py_id = Id_str string | Id_int int

fun py_str :: "py_id \<Rightarrow> string" where
  "py_str (Id_str s) = s"
| "py_str (Id_int i) = str_int i"

text \<open>\<open>sep.join(xs)\<close>\<close>

fun join :: "string \<Rightarrow> string list \<Rightarrow> string" where
  "join sep [] = []"
| "join sep [x] = x"
| "join sep (x # y # ys) = x @ sep @ join sep (y # ys)"

section \<open>managers.py: StructurePairManager\<close>

text \<open>
  An interaction line (\<open>InteractionShapesLine\<close>). \<open>line_index\<close> is the index the render
  host assigns to the shape, \<open>kind\<close> the name of its \<open>enums.InteractionKind\<close> member
  (the name is what \<open>update_interaction_lines\<close> looks the settings up by), and
  \<open>structure_indices\<close> the pair of structure identifiers that \<open>_update_line\<close> reads.
\<close>

record rgba =
  red :: nat
  green :: nat
  blue :: nat
  alpha :: nat

record line =
  line_index :: int
  kind :: string
  atom1_idx_arr :: "int list"
  atom2_idx_arr :: "int list"
  atom1_conformation :: int
  atom2_conformation :: int
  structure_indices :: "py_id \<times> py_id"
  color :: rgba

definition get_structpair_key :: "py_id \<Rightarrow> py_id \<Rightarrow> string" where
  "get_structpair_key struct1_key struct2_key =
     join ''|'' (sort [py_str struct1_key, py_str struct2_key])"

definition get_structpair_key_for_line :: "line \<Rightarrow> string" where
  "get_structpair_key_for_line L =
     (let sorted_atom1_idx_arr = sort (atom1_idx_arr L);
          sorted_atom2_idx_arr = sort (atom2_idx_arr L);
          struct1_key = join '','' (map str_int sorted_atom1_idx_arr);
          struct2_key = join '','' (map str_int sorted_atom2_idx_arr)
      in join ''|'' (sort [struct1_key, struct2_key]))"

section \<open>The structure provider's data\<close>

text \<open>
  Molecules, chains, residues and atoms of the host library's \<open>structure\<close> module, with
  the accessors the plugin uses: \<open>chain.atoms\<close>, \<open>molecule.atoms\<close>, \<open>complex.chains\<close> and
  \<open>complex.residues\<close> walk the hierarchy in order. Coordinates are taken as real numbers.
\<close>

type_synonym vec3 = "real \<times> real \<times> real"

record atom =
  atom_index :: int
  position :: vec3
  selected :: bool

record residue =
  res_index :: int
  res_atoms :: "atom list"

record chain =
  chain_name :: string
  residues :: "residue list"

record molecule =
  chains :: "chain list"

record cplx =
  comp_index :: int
  comp_name :: string
  comp_position :: vec3
  comp_rotation :: "real \<times> real \<times> real \<times> real"
  molecules :: "molecule list"
  current_frame :: int

definition chain_atoms :: "chain \<Rightarrow> atom list" where
  "chain_atoms ch = concat (map res_atoms (residues ch))"

definition mol_atoms :: "molecule \<Rightarrow> atom list" where
  "mol_atoms mol = concat (map chain_atoms (chains mol))"

definition comp_chains :: "cplx \<Rightarrow> chain list" where
  "comp_chains c = concat (map chains (molecules c))"

definition comp_residues :: "cplx \<Rightarrow> residue list" where
  "comp_residues c = concat (map residues (comp_chains c))"

text \<open>
  The molecule at position \<open>current_frame\<close>: what
  \<open>next(mol for i, mol in enumerate(comp.molecules) if i == comp.current_frame)\<close> finds, and
  what the accessor \<open>current_molecule\<close> holds; \<open>None\<close> when no position matches.
\<close>

definition current_molecule :: "cplx \<Rightarrow> molecule option" where
  "current_molecule c =
     (if 0 \<le> current_frame c \<and> current_frame c < int (length (molecules c))
      then Some (molecules c ! nat (current_frame c)) else None)"

section \<open>managers.py: ShapesLineManager\<close>

text \<open>
  Lines are Python objects: the cache, the caller and the update loop share them, and
  \<open>list.remove\<close> finds a line by identity. A line is therefore a reference into a heap
  of line objects. The manager owns \<open>data\<close> (the \<open>defaultdict(list)\<close>, in insertion order)
  and \<open>stream\<close> (the attribute \<open>_stream\<close>; \<open>None\<close> when it is absent or falsy). Calls to
  the render host and to the logger are recorded in \<open>events\<close>, in the order they are made.
\<close>

type_synonym ref = nat

record stream_handle =
  stream_id :: nat
  bound :: "int list"

datatype event =
    Log_debug string
  | Log_warning string
  | Log_error string
  | Shape_destroy_multiple "ref list"
  | Create_writing_stream "int list"
  | Stream_update stream_handle "nat list"
  | Stream_destroy stream_handle

record manager =
  data :: "(string \<times> ref list) list"
  stream :: "stream_handle option"
  heap :: "ref \<Rightarrow> line"
  events :: "event list"

text \<open>
  What the render host answers: \<open>create_writing_stream\<close> gives the identifier of the new
  stream for a list of line indices, or \<open>None\<close> for a falsy handle;
  \<open>stream_destroy_raises\<close> tells whether \<open>destroy()\<close> on a stream raises \<open>KeyError\<close>.
\<close>

record host =
  create_writing_stream :: "int list \<Rightarrow> nat option"
  stream_destroy_raises :: "stream_handle \<Rightarrow> bool"

record interaction_structure =
  struct_index :: string
  conformer :: int

record form_data =
  visible :: bool
  form_color :: "int \<times> int \<times> int"

type_synonym interactions_data = "string \<rightharpoonup> form_data"

datatype py_obj = Shapes_line ref | Other_object

text \<open>
  \<open>add_line\<close> accepts an \<open>InteractionShapesLine\<close> only. A call either returns or raises;
  an exception comes with the manager as it was when it was raised.
\<close>

type_synonym 'a result = "(error \<times> manager) + 'a"

definition emit :: "event \<Rightarrow> manager \<Rightarrow> manager" where
  "emit e s = s\<lparr>events := events s @ [e]\<rparr>"

text \<open>\<open>self._data[key]\<close> on the \<open>defaultdict\<close>: a missing key is inserted with an empty list.\<close>

definition getitem :: "string \<Rightarrow> manager \<Rightarrow> ref list \<times> manager" where
  "getitem key s =
     (case map_of (data s) key of
        Some line_list \<Rightarrow> (line_list, s)
      | None \<Rightarrow> ([], s\<lparr>data := data s @ [(key, [])]\<rparr>))"

text \<open>
  The cached lists are changed in place (\<open>append\<close>, \<open>remove\<close>, item assignment): the list
  under the key changes and the key keeps its place in the dictionary.
\<close>

definition setitem :: "string \<Rightarrow> ref list \<Rightarrow> manager \<Rightarrow> manager" where
  "setitem key line_list s = s\<lparr>data := AList.update key line_list (data s)\<rparr>"

definition all_lines :: "manager \<Rightarrow> ref list" where
  "all_lines s = concat (map snd (sort_key fst (data s)))"

definition destroy_stream :: "host \<Rightarrow> manager \<Rightarrow> manager" where
  "destroy_stream h s =
     (case stream s of
        None \<Rightarrow> s
      | Some st \<Rightarrow>
          if stream_destroy_raises h st
          then emit (Log_warning ''Stream not found while destroying.'') (emit (Stream_destroy st) s)
          else (emit (Stream_destroy st) s)\<lparr>stream := None\<rparr>)"

definition add_line :: "host \<Rightarrow> py_obj \<Rightarrow> manager \<Rightarrow> manager result" where
  "add_line h obj s =
     (case obj of
        Other_object \<Rightarrow> Inl (TypeError, s)
      | Shapes_line line \<Rightarrow>
          let structpair_key = get_structpair_key_for_line (heap s line);
              (line_list, s1) = getitem structpair_key s;
              existing_interaction_kinds = map (\<lambda>x. kind (heap s1 x)) line_list
          in if kind (heap s1 line) \<notin> set existing_interaction_kinds
             then Inr (destroy_stream h (setitem structpair_key (line_list @ [line]) s1))
             else Inr s1)"

fun add_lines :: "host \<Rightarrow> py_obj list \<Rightarrow> manager \<Rightarrow> manager result" where
  "add_lines h [] s = Inr s"
| "add_lines h (obj # line_list) s =
     (case add_line h obj s of
        Inl e \<Rightarrow> Inl e
      | Inr s1 \<Rightarrow> add_lines h line_list s1)"

definition get_lines_for_structure_pair ::
  "interaction_structure \<Rightarrow> interaction_structure \<Rightarrow> manager \<Rightarrow> ref list \<times> manager" where
  "get_lines_for_structure_pair struct1 struct2 s =
     (let key = get_structpair_key (Id_str (struct_index struct1)) (Id_str (struct_index struct2))
      in getitem key s)"

fun destroy_lines_loop :: "ref list \<Rightarrow> manager \<Rightarrow> manager result" where
  "destroy_lines_loop [] s = Inr s"
| "destroy_lines_loop (line # lines_to_delete) s =
     (let structpair_key = get_structpair_key_for_line (heap s line)
      in case map_of (data s) structpair_key of
           Some line_list \<Rightarrow>
             if line \<in> set line_list
             then destroy_lines_loop lines_to_delete (setitem structpair_key (remove1 line line_list) s)
             else Inl (ValueError, s)
         | None \<Rightarrow>
             destroy_lines_loop lines_to_delete
               (emit (Log_warning ''Line not found in manager while deleting.'') s))"

definition destroy_lines :: "ref list \<Rightarrow> manager \<Rightarrow> manager result" where
  "destroy_lines lines_to_delete s =
     destroy_lines_loop lines_to_delete (emit (Shape_destroy_multiple lines_to_delete) s)"

text \<open>\<open>_update_line\<close>: the first stored line with the index of \<open>line\<close> is replaced by \<open>line\<close>.\<close>

fun replace_first :: "('a \<Rightarrow> bool) \<Rightarrow> 'a \<Rightarrow> 'a list \<Rightarrow> 'a list" where
  "replace_first P x [] = []"
| "replace_first P x (y # ys) = (if P y then x # ys else y # replace_first P x ys)"

definition update_line :: "ref \<Rightarrow> manager \<Rightarrow> manager" where
  "update_line line s =
     (let structpair_key =
            get_structpair_key (fst (structure_indices (heap s line)))
              (snd (structure_indices (heap s line)));
          (line_list, s1) = getitem structpair_key s
      in setitem structpair_key
           (replace_first (\<lambda>stored_line. line_index (heap s1 stored_line) = line_index (heap s1 line))
              line line_list) s1)"

text \<open>
  Modelled from the spec: \<open>utils.line_in_frame\<close> is called by \<open>update_interaction_lines\<close>
  but is not among the source files. Section 4.5 of the specification: true iff every
  atom referenced by either endpoint of the line is present in the given atoms.
\<close>

definition line_in_frame :: "line \<Rightarrow> atom list \<Rightarrow> bool" where
  "line_in_frame L atoms =
     list_all (\<lambda>i. i \<in> set (map atom_index atoms)) (atom1_idx_arr L @ atom2_idx_arr L)"

text \<open>
  \<open>Color(r, g, b)\<close> of the host library: each component is clamped to the range 0 to 255,
  and alpha is 255 unless set. \<open>rgba_of\<close> is its \<open>rgba\<close> tuple.
\<close>

definition clamp_byte :: "int \<Rightarrow> nat" where
  "clamp_byte x = nat (max 0 (min 255 x))"

definition Color :: "int \<times> int \<times> int \<Rightarrow> rgba" where
  "Color c =
     (case c of (x, y, z) \<Rightarrow>
        \<lparr>red = clamp_byte x, green = clamp_byte y, blue = clamp_byte z, alpha = 255\<rparr>)"

definition rgba_of :: "rgba \<Rightarrow> nat list" where
  "rgba_of c = [red c, green c, blue c, alpha c]"

definition atom_iter :: "cplx list \<Rightarrow> atom list" where
  "atom_iter complexes =
     concat (map (\<lambda>cmp. case current_molecule cmp of None \<Rightarrow> [] | Some mol \<Rightarrow> mol_atoms mol)
               complexes)"

text \<open>
  The loop over \<open>all_lines\<close>. \<open>interactions_data[line_type]\<close> raises \<open>KeyError\<close> for a kind
  without settings. Assigning \<open>line.color\<close> changes the line object, hence every place
  that holds it. The two frame counters of the source are never read and are left out.
\<close>

fun update_loop ::
  "interactions_data \<Rightarrow> cplx list \<Rightarrow> ref list \<Rightarrow> manager \<Rightarrow> nat list \<Rightarrow> (manager \<times> nat list) result"
  where
  "update_loop idata complexes [] s new_colors = Inr (s, new_colors)"
| "update_loop idata complexes (line # rest) s new_colors =
     (let line_is_in_frame = line_in_frame (heap s line) (atom_iter complexes);
          line_type = kind (heap s line)
      in case idata line_type of
           None \<Rightarrow> Inl (KeyError, s)
         | Some fd \<Rightarrow>
             let hide_interaction = (\<not> visible fd \<or> \<not> line_is_in_frame);
                 c = (Color (form_color fd))\<lparr>alpha := (if hide_interaction then 0 else 255)\<rparr>;
                 s1 = s\<lparr>heap := (heap s)(line := (heap s line)\<lparr>color := c\<rparr>)\<rparr>
             in update_loop idata complexes rest (update_line line s1) (new_colors @ rgba_of c))"

definition update_interaction_lines ::
  "host \<Rightarrow> interactions_data \<Rightarrow> cplx list \<Rightarrow> manager \<Rightarrow> manager result" where
  "update_interaction_lines plugin idata complexes s =
     (if complexes = [] then Inr (emit (Log_warning ''No complexes to update, returning'') s)
      else
        let lines = all_lines s;
            line_indices = map (\<lambda>line. line_index (heap s line)) lines
        in if line_indices = []
           then Inr (emit (Log_warning ''No interaction lines to update, returning'') s)
           else
             let s1 = (case stream s of
                         Some st \<Rightarrow> s
                       | None \<Rightarrow>
                           (emit (Create_writing_stream line_indices)
                              (emit (Log_debug ''Recreating Stream.'') s))
                           \<lparr>stream := map_option (\<lambda>i. \<lparr>stream_id = i, bound = line_indices\<rparr>)
                                        (create_writing_stream plugin line_indices)\<rparr>)
             in case stream s1 of
                  None \<Rightarrow> Inr (emit (Log_error ''Failed to Create stream.'') s1)
                | Some st \<Rightarrow>
                    (case update_loop idata complexes lines s1 [] of
                       Inl e \<Rightarrow> Inl e
                     | Inr (s2, new_colors) \<Rightarrow>
                         (case stream s2 of
                            None \<Rightarrow> Inr s2
                          | Some st2 \<Rightarrow> Inr (emit (Stream_update st2 new_colors) s2))))"

definition new_manager :: "(ref \<Rightarrow> line) \<Rightarrow> manager" where
  "new_manager hp = \<lparr>data = [], stream = None, heap = hp, events = []\<rparr>"

section \<open>utils.py\<close>

text \<open>
  \<open>structure.Complex()\<close>: a complex with nothing in it yet (its default attributes are
  the host library's; no property below depends on them).
\<close>

definition Complex_new :: cplx where
  "Complex_new =
     \<lparr>comp_index = - 1, comp_name = ''complex'', comp_position = (0, 0, 0),
      comp_rotation = (0, 0, 0, 1), molecules = [], current_frame = 0\<rparr>"

definition extract_residues_from_complex :: "cplx \<Rightarrow> residue list \<Rightarrow> string \<Rightarrow> cplx" where
  "extract_residues_from_complex cmp residue_list name =
     (let binding_site_residue_indices = map res_index residue_list;
          new_chains =
            concat (map (\<lambda>ch.
              let reses_on_chain =
                    filter (\<lambda>res. res_index res \<in> set binding_site_residue_indices) (residues ch)
              in if reses_on_chain \<noteq> []
                 then [\<lparr>chain_name = chain_name ch, residues = reses_on_chain\<rparr>]
                 else []) (comp_chains cmp))
      in Complex_new
           \<lparr>molecules := [\<lparr>chains = new_chains\<rparr>],
            comp_name := (if name \<noteq> [] then name else comp_name cmp),
            comp_index := - 1,
            comp_position := comp_position cmp,
            comp_rotation := comp_rotation cmp\<rparr>)"

text \<open>
  \<open>scipy.spatial.KDTree\<close>: the tree holds the points it was built from, and
  \<open>query_ball_point(x, r)\<close> gives the positions in that array of the points at Euclidean
  distance at most \<open>r\<close> from \<open>x\<close>. Building a tree from no point, or querying it with no
  point, raises \<open>ValueError\<close>.
\<close>

definition in_ball :: "real \<Rightarrow> vec3 \<Rightarrow> vec3 \<Rightarrow> bool" where
  "in_ball rad p q =
     (case p of (x1, y1, z1) \<Rightarrow> case q of (x2, y2, z2) \<Rightarrow>
        0 \<le> rad \<and> (x1 - x2)\<^sup>2 + (y1 - y2)\<^sup>2 + (z1 - z2)\<^sup>2 \<le> rad\<^sup>2)"

definition query_ball_point :: "vec3 list \<Rightarrow> vec3 \<Rightarrow> real \<Rightarrow> nat list" where
  "query_ball_point tree_data x rad =
     filter (\<lambda>i. in_ball rad (tree_data ! i) x) [0 ..< length tree_data]"

definition startswith :: "string \<Rightarrow> string \<Rightarrow> bool" where
  "startswith s p = (take (length p) s = p)"

definition calculate_binding_site_atoms :: "cplx \<Rightarrow> atom list \<Rightarrow> real \<Rightarrow> error + atom list" where
  "calculate_binding_site_atoms target_reference ligand_atoms site_size =
     (case current_molecule target_reference of
        None \<Rightarrow> Inl StopIteration
      | Some mol \<Rightarrow>
          let ligand_positions = map position ligand_atoms;
              target_atoms =
                concat (map chain_atoms
                  (filter (\<lambda>ch. \<not> startswith (chain_name ch) ''H'') (chains mol)));
              target_tree = map position target_atoms
          in if target_tree = [] \<or> ligand_positions = [] then Inl ValueError
             else
               let target_point_indices =
                     map (\<lambda>x. query_ball_point target_tree x site_size) ligand_positions;
                   near_point_set =
                     set (concat (map (map (\<lambda>point_index. target_tree ! point_index))
                                    target_point_indices))
               in Inr (filter (\<lambda>targ_atom. position targ_atom \<in> near_point_set) (mol_atoms mol)))"

text \<open>
  \<open>ComplexUtils.align_to(comp, align_reference)\<close> belongs to the host library: it rewrites
  the position of every atom of \<open>comp\<close>, taking it from the frame of \<open>comp\<close> to the frame of
  the reference, and then gives \<open>comp\<close> the position and rotation of the reference. The
  map between the two frames is the host's; it is the parameter \<open>transform\<close>, a function
  of the two poses.
\<close>

type_synonym pose = "vec3 \<times> real \<times> real \<times> real \<times> real"

definition comp_pose :: "cplx \<Rightarrow> pose" where
  "comp_pose c = (comp_position c, comp_rotation c)"

definition move_atoms :: "(vec3 \<Rightarrow> vec3) \<Rightarrow> cplx \<Rightarrow> cplx" where
  "move_atoms f c =
     c\<lparr>molecules :=
         map (\<lambda>mol. mol\<lparr>chains :=
           map (\<lambda>ch. ch\<lparr>residues :=
             map (\<lambda>res. res\<lparr>res_atoms :=
               map (\<lambda>atm. atm\<lparr>position := f (position atm)\<rparr>) (res_atoms res)\<rparr>)
               (residues ch)\<rparr>)
             (chains mol)\<rparr>)
           (molecules c)\<rparr>"

definition align_to :: "(pose \<Rightarrow> pose \<Rightarrow> vec3 \<Rightarrow> vec3) \<Rightarrow> cplx \<Rightarrow> cplx \<Rightarrow> cplx" where
  "align_to transform cmp align_reference =
     (move_atoms (transform (comp_pose cmp) (comp_pose align_reference)) cmp)
       \<lparr>comp_position := comp_position align_reference,
        comp_rotation := comp_rotation align_reference\<rparr>"

text \<open>
  The loop of \<open>merge_complexes\<close>. Aligning changes the complex in place, so the chains
  grafted onto the merged molecule are those of the aligned complex.
\<close>

fun merge_loop ::
  "(pose \<Rightarrow> pose \<Rightarrow> vec3 \<Rightarrow> vec3) \<Rightarrow> cplx list \<Rightarrow> cplx \<Rightarrow> bool \<Rightarrow> molecule \<Rightarrow> error + molecule"
  where
  "merge_loop transform [] align_reference selected_atoms_only mol = Inr mol"
| "merge_loop transform (c # complexes) align_reference selected_atoms_only mol =
     (let cmp = align_to transform c align_reference
      in case current_molecule cmp of
           None \<Rightarrow> Inl StopIteration
         | Some existing_mol \<Rightarrow>
             if selected_atoms_only \<and> comp_index cmp \<noteq> comp_index align_reference
             then
               let selected_residues =
                     filter (\<lambda>res. list_ex selected (res_atoms res)) (comp_residues cmp);
                   extracted_comp = extract_residues_from_complex cmp selected_residues []
               in merge_loop transform complexes align_reference selected_atoms_only
                    (mol\<lparr>chains := chains mol @ comp_chains extracted_comp\<rparr>)
             else
               merge_loop transform complexes align_reference selected_atoms_only
                 (mol\<lparr>chains := chains mol @ chains existing_mol\<rparr>))"

definition merge_complexes ::
  "(pose \<Rightarrow> pose \<Rightarrow> vec3 \<Rightarrow> vec3) \<Rightarrow> cplx list \<Rightarrow> cplx \<Rightarrow> bool \<Rightarrow> error + cplx" where
  "merge_complexes transform complexes align_reference selected_atoms_only =
     (case merge_loop transform complexes align_reference selected_atoms_only \<lparr>chains = []\<rparr> of
        Inl e \<Rightarrow> Inl e
      | Inr mol \<Rightarrow> Inr (Complex_new\<lparr>molecules := [mol]\<rparr>))"

section \<open>Notions used in the statements\<close>

text \<open>The list cached under a key (empty when the key is absent), read without inserting.\<close>

definition lines_of :: "manager \<Rightarrow> string \<Rightarrow> ref list" where
  "lines_of s key = (case map_of (data s) key of None \<Rightarrow> [] | Some line_list \<Rightarrow> line_list)"

text \<open>No list of the cache holds two lines of the same kind.\<close>

definition kinds_distinct :: "manager \<Rightarrow> bool" where
  "kinds_distinct s = list_all (\<lambda>entry. distinct (map (\<lambda>x. kind (heap s x)) (snd entry))) (data s)"


text \<open>The colour the update pass gives a line: the configured RGB of its kind, opaque
  iff the kind is visible and the line is in frame.\<close>

definition recolor :: "interactions_data \<Rightarrow> cplx list \<Rightarrow> line \<Rightarrow> line" where
  "recolor idata complexes L =
     (case idata (kind L) of
        None \<Rightarrow> L
      | Some fd \<Rightarrow>
          L\<lparr>color := (Color (form_color fd))
               \<lparr>alpha := (if \<not> visible fd \<or> \<not> line_in_frame L (atom_iter complexes) then 0 else 255)\<rparr>\<rparr>)"

subsection \<open>Concrete lines, structures and hosts\<close>

definition black :: rgba where
  "black = \<lparr>red = 0, green = 0, blue = 0, alpha = 255\<rparr>"

definition line_A :: line where
  "line_A = \<lparr>line_index = 10, kind = ''HydrogenBond'', atom1_idx_arr = [1, 2], atom2_idx_arr = [5],
             atom1_conformation = 0, atom2_conformation = 0,
             structure_indices = (Id_str ''1,2'', Id_str ''5''), color = black\<rparr>"

definition line_B :: line where
  "line_B = \<lparr>line_index = 11, kind = ''HydrogenBond'', atom1_idx_arr = [5], atom2_idx_arr = [2, 1],
             atom1_conformation = 0, atom2_conformation = 0,
             structure_indices = (Id_str ''5'', Id_str ''1,2''), color = black\<rparr>"

definition line_C :: line where
  "line_C = \<lparr>line_index = 12, kind = ''Ionic'', atom1_idx_arr = [3], atom2_idx_arr = [4],
             atom1_conformation = 0, atom2_conformation = 0,
             structure_indices = (Id_str ''3'', Id_str ''4''), color = black\<rparr>"

text \<open>Three line objects: reference 0 is \<open>line_A\<close>, 1 is \<open>line_B\<close>, 2 (and the rest) \<open>line_C\<close>.\<close>

definition heap0 :: "ref \<Rightarrow> line" where
  "heap0 = (\<lambda>_. line_C)(0 := line_A, Suc 0 := line_B)"

definition struct_12 :: interaction_structure where
  "struct_12 = \<lparr>struct_index = ''1,2'', conformer = 0\<rparr>"

definition struct_5 :: interaction_structure where
  "struct_5 = \<lparr>struct_index = ''5'', conformer = 0\<rparr>"

text \<open>A host that opens stream 1 for every request, one that refuses every request.\<close>

definition host_ok :: host where
  "host_ok = \<lparr>create_writing_stream = (\<lambda>_. Some 1), stream_destroy_raises = (\<lambda>_. False)\<rparr>"

definition host_refusing :: host where
  "host_refusing = \<lparr>create_writing_stream = (\<lambda>_. None), stream_destroy_raises = (\<lambda>_. False)\<rparr>"

text \<open>Settings for two kinds, and a complex whose displayed frame holds the atoms
  1, 2 and 5 (so \<open>line_A\<close> and \<open>line_B\<close> are in frame and \<open>line_C\<close> is not).\<close>

definition settings0 :: interactions_data where
  "settings0 = [''HydrogenBond'' \<mapsto> \<lparr>visible = True, form_color = (255, 255, 0)\<rparr>,
                ''Ionic'' \<mapsto> \<lparr>visible = True, form_color = (0, 0, 255)\<rparr>]"

definition frame_125 :: cplx where
  "frame_125 =
     \<lparr>comp_index = 1, comp_name = ''target'', comp_position = (0, 0, 0),
      comp_rotation = (0, 0, 0, 1),
      molecules =
        [\<lparr>chains =
            [\<lparr>chain_name = ''A'',
              residues =
                [\<lparr>res_index = 1,
                  res_atoms =
                    [\<lparr>atom_index = 1, position = (0, 0, 0), selected = False\<rparr>,
                     \<lparr>atom_index = 2, position = (1, 0, 0), selected = False\<rparr>,
                     \<lparr>atom_index = 5, position = (0, 3, 0), selected = False\<rparr>]\<rparr>]\<rparr>]\<rparr>],
      current_frame = 0\<rparr>"

text \<open>A cache holding \<open>line_A\<close> and \<open>line_C\<close>, without and with a live stream.\<close>

definition cache_AC :: manager where
  "cache_AC = \<lparr>data = [(''1,2|5'', [0]), (''3|4'', [2])], stream = None, heap = heap0, events = []\<rparr>"

definition cache_AC_streaming :: manager where
  "cache_AC_streaming = cache_AC\<lparr>stream := Some \<lparr>stream_id = 1, bound = [10, 12]\<rparr>\<rparr>"

text \<open>
  The chains of a complex (over all its molecules) rebuilt from the residues that
  satisfy \<open>keep\<close>: each chain keeps its name and those of its residues, in order, and a
  chain left without residues is dropped. \<open>frame_chains\<close> are the chains of the molecule
  at the current frame.
\<close>

definition rebuilt_chains :: "(residue \<Rightarrow> bool) \<Rightarrow> cplx \<Rightarrow> chain list" where
  "rebuilt_chains keep c =
     concat (map (\<lambda>ch. if filter keep (residues ch) \<noteq> []
                        then [\<lparr>chain_name = chain_name ch, residues = filter keep (residues ch)\<rparr>]
                        else []) (comp_chains c))"

definition frame_chains :: "cplx \<Rightarrow> chain list" where
  "frame_chains c = (case current_molecule c of None \<Rightarrow> [] | Some mol \<Rightarrow> chains mol)"

definition has_selected_atom :: "residue \<Rightarrow> bool" where
  "has_selected_atom res = list_ex selected (res_atoms res)"

text \<open>The residue's index is that of some residue of the complex with a selected atom.\<close>

definition shares_index_with_selected :: "cplx \<Rightarrow> residue \<Rightarrow> bool" where
  "shares_index_with_selected c res =
     list_ex (\<lambda>r. res_index r = res_index res \<and> has_selected_atom r) (comp_residues c)"

text \<open>What one input complex adds to the merged molecule, once aligned.\<close>

definition contribution ::
  "(pose \<Rightarrow> pose \<Rightarrow> vec3 \<Rightarrow> vec3) \<Rightarrow> cplx \<Rightarrow> bool \<Rightarrow> cplx \<Rightarrow> chain list" where
  "contribution transform align_reference selected_atoms_only c =
     (if selected_atoms_only \<and> comp_index c \<noteq> comp_index align_reference
      then rebuilt_chains (shares_index_with_selected (align_to transform c align_reference))
             (align_to transform c align_reference)
      else frame_chains (align_to transform c align_reference))"

text \<open>
  Two complexes for the merge: \<open>cplx_A\<close> with the chain \<open>chain_a1\<close>, and \<open>cplx_B\<close> with the
  chain \<open>chain_b1\<close>, whose two residues both carry the index \<open>-1\<close> of a residue the host
  has not numbered; only the first holds a selected atom. \<open>cplx_B\<close> lies one unit along
  the first axis from \<open>cplx_A\<close>, and neither is rotated; for such complexes the map
  between the frames is the translation \<open>translate\<close>.
\<close>

definition chain_a1 :: chain where
  "chain_a1 = \<lparr>chain_name = ''A'',
     residues = [\<lparr>res_index = 1,
                  res_atoms = [\<lparr>atom_index = 1, position = (0, 0, 0), selected = False\<rparr>]\<rparr>]\<rparr>"

definition res_sel :: residue where
  "res_sel = \<lparr>res_index = - 1,
     res_atoms = [\<lparr>atom_index = 5, position = (0, 3, 0), selected = True\<rparr>]\<rparr>"

definition res_unsel :: residue where
  "res_unsel = \<lparr>res_index = - 1,
     res_atoms = [\<lparr>atom_index = 6, position = (0, 4, 0), selected = False\<rparr>]\<rparr>"

definition chain_b1 :: chain where
  "chain_b1 = \<lparr>chain_name = ''B'', residues = [res_sel, res_unsel]\<rparr>"

definition cplx_A :: cplx where
  "cplx_A = \<lparr>comp_index = 1, comp_name = ''A'', comp_position = (0, 0, 0),
     comp_rotation = (0, 0, 0, 1), molecules = [\<lparr>chains = [chain_a1]\<rparr>], current_frame = 0\<rparr>"

definition cplx_B :: cplx where
  "cplx_B = \<lparr>comp_index = 2, comp_name = ''B'', comp_position = (1, 0, 0),
     comp_rotation = (0, 0, 0, 1), molecules = [\<lparr>chains = [chain_b1]\<rparr>], current_frame = 0\<rparr>"

definition translate :: "pose \<Rightarrow> pose \<Rightarrow> vec3 \<Rightarrow> vec3" where
  "translate from_pose to_pose p =
     (case p of (x, y, z) \<Rightarrow>
      case fst from_pose of (x1, y1, z1) \<Rightarrow>
      case fst to_pose of (x2, y2, z2) \<Rightarrow> (x + x1 - x2, y + y1 - y2, z + z1 - z2))"

text \<open>\<open>cplx_B\<close>, its chain and its residues once aligned to \<open>cplx_A\<close>.\<close>

definition res_sel_aligned :: residue where
  "res_sel_aligned = \<lparr>res_index = - 1,
     res_atoms = [\<lparr>atom_index = 5, position = (1, 3, 0), selected = True\<rparr>]\<rparr>"

definition res_unsel_aligned :: residue where
  "res_unsel_aligned = \<lparr>res_index = - 1,
     res_atoms = [\<lparr>atom_index = 6, position = (1, 4, 0), selected = False\<rparr>]\<rparr>"

definition chain_b1_aligned :: chain where
  "chain_b1_aligned = \<lparr>chain_name = ''B'', residues = [res_sel_aligned, res_unsel_aligned]\<rparr>"

definition cplx_B_aligned :: cplx where
  "cplx_B_aligned = \<lparr>comp_index = 2, comp_name = ''B'', comp_position = (0, 0, 0),
     comp_rotation = (0, 0, 0, 1), molecules = [\<lparr>chains = [chain_b1_aligned]\<rparr>],
     current_frame = 0\<rparr>"

text \<open>
  A target for the binding site: chain \<open>A\<close> holds atom 1 at the origin; the chain \<open>HA\<close>
  holds atom 2, also at the origin, and atom 3, one unit away. The ligand atom sits at
  the origin.
\<close>

definition target_atom :: atom where
  "target_atom = \<lparr>atom_index = 1, position = (0, 0, 0), selected = False\<rparr>"

definition hetero_atom_same_place :: atom where
  "hetero_atom_same_place = \<lparr>atom_index = 2, position = (0, 0, 0), selected = False\<rparr>"

definition hetero_atom_near :: atom where
  "hetero_atom_near = \<lparr>atom_index = 3, position = (1, 0, 0), selected = False\<rparr>"

definition ligand_atom :: atom where
  "ligand_atom = \<lparr>atom_index = 9, position = (0, 0, 0), selected = False\<rparr>"

definition target_H :: cplx where
  "target_H =
     \<lparr>comp_index = 1, comp_name = ''target'', comp_position = (0, 0, 0),
      comp_rotation = (0, 0, 0, 1),
      molecules =
        [\<lparr>chains =
            [\<lparr>chain_name = ''A'', residues = [\<lparr>res_index = 1, res_atoms = [target_atom]\<rparr>]\<rparr>,
             \<lparr>chain_name = ''HA'',
              residues = [\<lparr>res_index = 2,
                           res_atoms = [hetero_atom_same_place, hetero_atom_near]\<rparr>]\<rparr>]\<rparr>],
      current_frame = 0\<rparr>"

text \<open>
  Two lines drawn for the pair of \<open>struct_12\<close> and \<open>struct_5\<close>, of different kinds, that
  the host has not numbered yet: both still carry the index \<open>-1\<close>. Reference 0 is the
  hydrogen bond, every other reference the ionic line.
\<close>

definition hbond_unnumbered :: line where
  "hbond_unnumbered = line_A\<lparr>line_index := - 1\<rparr>"

definition ionic_unnumbered :: line where
  "ionic_unnumbered = line_A\<lparr>line_index := - 1, kind := ''Ionic''\<rparr>"

definition heap_unnumbered :: "ref \<Rightarrow> line" where
  "heap_unnumbered = (\<lambda>_. ionic_unnumbered)(0 := hbond_unnumbered)"

section \<open>Properties of the pair key\<close>

lemma sort_pair_commute: "sort [x, y] = sort [y, x]" for x y :: "'a :: linorder"
  by auto

lemma sort_mset_cong: "mset xs = mset ys \<Longrightarrow> sort xs = sort ys" for xs ys :: "'a :: linorder list"
  by (metis sorted_list_of_multiset_mset)

text \<open>
  C8. The key of a pair of identifiers does not depend on the order of the two
  arguments: both are converted to strings, the two strings are sorted and joined
  by \<open>|\<close>. For the identifiers \<open>1,2\<close> and \<open>5\<close> the key is \<open>1,2|5\<close>, whichever comes first.
\<close>

theorem get_structpair_key_commutes:
  "get_structpair_key x y = get_structpair_key y x
   \<and> get_structpair_key x y = join ''|'' (sort [py_str x, py_str y])
   \<and> get_structpair_key (Id_str ''1,2'') (Id_str ''5'') = ''1,2|5''
   \<and> get_structpair_key (Id_str ''5'') (Id_str ''1,2'') = ''1,2|5''"
proof -
  have "get_structpair_key x y = get_structpair_key y x"
    unfolding get_structpair_key_def by (simp only: sort_pair_commute [of "py_str x"])
  moreover have "get_structpair_key (Id_str ''1,2'') (Id_str ''5'') = ''1,2|5''"
    by (simp add: get_structpair_key_def)
  moreover have "get_structpair_key (Id_str ''5'') (Id_str ''1,2'') = ''1,2|5''"
    by (simp add: get_structpair_key_def)
  ultimately show ?thesis
    by (simp add: get_structpair_key_def)
qed

text \<open>
  C9. The key of a line is built by sorting each endpoint's atom-index array and joining
  its indices with commas, then sorting the two resulting strings and joining them with
  \<open>|\<close>. It is the same when the two endpoints (atom-index arrays together with their
  conformer tags) are exchanged, and the same when the atom indices inside either array
  are reordered.
\<close>

theorem get_structpair_key_for_line_invariant:
  "get_structpair_key_for_line L =
     join ''|'' (sort [join '','' (map str_int (sort (atom1_idx_arr L))),
                       join '','' (map str_int (sort (atom2_idx_arr L)))])
   \<and> get_structpair_key_for_line
     (L\<lparr>atom1_idx_arr := atom2_idx_arr L, atom2_idx_arr := atom1_idx_arr L,
         atom1_conformation := atom2_conformation L,
         atom2_conformation := atom1_conformation L\<rparr>)
   = get_structpair_key_for_line L
   \<and> (mset arr1 = mset (atom1_idx_arr L) \<and> mset arr2 = mset (atom2_idx_arr L) \<longrightarrow>
        get_structpair_key_for_line (L\<lparr>atom1_idx_arr := arr1, atom2_idx_arr := arr2\<rparr>)
        = get_structpair_key_for_line L)"
proof -
  have swap: "get_structpair_key_for_line
     (L\<lparr>atom1_idx_arr := atom2_idx_arr L, atom2_idx_arr := atom1_idx_arr L,
         atom1_conformation := atom2_conformation L,
         atom2_conformation := atom1_conformation L\<rparr>)
   = get_structpair_key_for_line L"
    unfolding get_structpair_key_for_line_def Let_def
    by (simp del: sort_key_simps
        add: sort_pair_commute [of "join '','' (map str_int (sort (atom2_idx_arr L)))"])
  have perm: "get_structpair_key_for_line (L\<lparr>atom1_idx_arr := arr1, atom2_idx_arr := arr2\<rparr>)
        = get_structpair_key_for_line L"
    if "mset arr1 = mset (atom1_idx_arr L)" "mset arr2 = mset (atom2_idx_arr L)"
    using sort_mset_cong [OF that(1)] sort_mset_cong [OF that(2)]
    unfolding get_structpair_key_for_line_def Let_def by simp
  have build: "get_structpair_key_for_line L =
     join ''|'' (sort [join '','' (map str_int (sort (atom1_idx_arr L))),
                       join '','' (map str_int (sort (atom2_idx_arr L)))])"
    unfolding get_structpair_key_for_line_def Let_def by (rule refl)
  from build swap perm show ?thesis by blast
qed

theorem get_structpair_key_for_line_invariant_witness:
  "mset [2, 1] = mset [1, 2 :: int] \<and> mset [5] = mset [5 :: int]
   \<and> get_structpair_key_for_line
       \<lparr>line_index = 7, kind = ''HydrogenBond'', atom1_idx_arr = [2, 1], atom2_idx_arr = [5],
        atom1_conformation = 0, atom2_conformation = 0,
        structure_indices = (Id_str ''1,2'', Id_str ''5''),
        color = \<lparr>red = 0, green = 0, blue = 0, alpha = 0\<rparr>\<rparr> = ''1,2|5''
   \<and> get_structpair_key_for_line
       \<lparr>line_index = 7, kind = ''HydrogenBond'', atom1_idx_arr = [5], atom2_idx_arr = [1, 2],
        atom1_conformation = 0, atom2_conformation = 0,
        structure_indices = (Id_str ''1,2'', Id_str ''5''),
        color = \<lparr>red = 0, green = 0, blue = 0, alpha = 0\<rparr>\<rparr> = ''1,2|5''
   \<and> get_structpair_key_for_line
       \<lparr>line_index = 8, kind = ''Ionic'', atom1_idx_arr = [5], atom2_idx_arr = [10, 2],
        atom1_conformation = 0, atom2_conformation = 0,
        structure_indices = (Id_str ''5'', Id_str ''2,10''),
        color = \<lparr>red = 0, green = 0, blue = 0, alpha = 0\<rparr>\<rparr> = ''2,10|5''"
proof -
  let ?L = "\<lparr>line_index = 7, kind = ''HydrogenBond'', atom1_idx_arr = [1, 2], atom2_idx_arr = [5],
        atom1_conformation = 0, atom2_conformation = 0,
        structure_indices = (Id_str ''1,2'', Id_str ''5''),
        color = \<lparr>red = 0, green = 0, blue = 0, alpha = 0\<rparr>\<rparr>"
  let ?M = "\<lparr>line_index = 8, kind = ''Ionic'', atom1_idx_arr = [5], atom2_idx_arr = [10, 2],
        atom1_conformation = 0, atom2_conformation = 0,
        structure_indices = (Id_str ''5'', Id_str ''2,10''),
        color = \<lparr>red = 0, green = 0, blue = 0, alpha = 0\<rparr>\<rparr>"
  from get_structpair_key_for_line_invariant [of ?L "[2, 1]" "[5]"]
  have base: "get_structpair_key_for_line ?L = ''1,2|5''"
    by (simp add: str_int_def str_nat.simps)
  from get_structpair_key_for_line_invariant [of ?M "[10, 2]" "[5]"]
  have other: "get_structpair_key_for_line ?M = ''2,10|5''"
    by (simp add: str_int_def str_nat.simps)
  from get_structpair_key_for_line_invariant [of ?L "[2, 1]" "[5]"] base other
  show ?thesis by simp
qed

section \<open>The cache: inserting and reading\<close>


lemma key_A: "get_structpair_key_for_line line_A = ''1,2|5''"
  by (simp add: get_structpair_key_for_line_def line_A_def str_int_def str_nat.simps)
lemma key_B: "get_structpair_key_for_line line_B = ''1,2|5''"
  by (simp add: get_structpair_key_for_line_def line_B_def str_int_def str_nat.simps)
lemma key_C: "get_structpair_key_for_line line_C = ''3|4''"
  by (simp add: get_structpair_key_for_line_def line_C_def str_int_def str_nat.simps)

lemma update_absent: "k \<notin> fst ` set al \<Longrightarrow> AList.update k v al = al @ [(k, v)]"
  by (induction al) auto

lemma update_append_absent:
  "k \<notin> fst ` set al \<Longrightarrow> AList.update k v (al @ [(k, w)]) = al @ [(k, v)]"
  by (induction al) auto

lemma heap_getitem [simp]: "heap (snd (getitem key s)) = heap s"
  and stream_getitem [simp]: "stream (snd (getitem key s)) = stream s"
  and events_getitem [simp]: "events (snd (getitem key s)) = events s"
  by (simp_all add: getitem_def split: option.splits)

lemma heap_setitem [simp]: "heap (setitem key v s) = heap s"
  and stream_setitem [simp]: "stream (setitem key v s) = stream s"
  and events_setitem [simp]: "events (setitem key v s) = events s"
  by (simp_all add: setitem_def)

lemma fst_getitem: "fst (getitem key s) = lines_of s key"
  by (simp add: getitem_def lines_of_def split: option.splits)

lemma getitem_present: "map_of (data s) key = Some ll \<Longrightarrow> getitem key s = (ll, s)"
  by (simp add: getitem_def)

lemma setitem_getitem:
  "data (setitem key v (snd (getitem key s))) = AList.update key v (data s)"
  by (auto simp: setitem_def getitem_def update_absent update_append_absent map_of_eq_None_iff
      split: option.splits)

lemma heap_destroy_stream [simp]: "heap (destroy_stream h s) = heap s"
  and data_destroy_stream [simp]: "data (destroy_stream h s) = data s"
  by (simp_all add: destroy_stream_def emit_def split: option.splits)

lemma add_line_result:
  "add_line h (Shapes_line line) s =
     (let key = get_structpair_key_for_line (heap s line) in
      if kind (heap s line) \<in> (\<lambda>x. kind (heap s x)) ` set (lines_of s key) then Inr s
      else Inr (destroy_stream h (setitem key (lines_of s key @ [line]) (snd (getitem key s)))))"
  by (auto simp: add_line_def Let_def getitem_def lines_of_def split: option.splits prod.splits)


lemma map_of_update_same: "map_of (AList.update k v al) k = Some v"
  by (simp add: update_conv')

lemma lines_of_add:
  "lines_of (destroy_stream h (setitem key v (snd (getitem key s)))) key = v"
  by (simp add: lines_of_def setitem_getitem map_of_update_same)

lemma distinct_map_filter_one:
  "distinct (map f xs) \<Longrightarrow> x \<in> set xs \<Longrightarrow> length (filter (\<lambda>y. f y = f x) xs) = 1"
proof (induction xs)
  case Nil
  then show ?case by simp
next
  case (Cons y ys)
  show ?case
  proof (cases "f y = f x")
    case True
    from Cons.prems have "f y \<notin> f ` set ys" by simp
    with True have "\<forall>z\<in>set ys. f z \<noteq> f x" by (metis imageI)
    then have "filter (\<lambda>y. f y = f x) ys = []" by (simp add: filter_empty_conv)
    with True show ?thesis by simp
  next
    case False
    with Cons show ?thesis by auto
  qed
qed

lemma kinds_distinct_lines_of: "kinds_distinct s \<Longrightarrow> distinct (map (\<lambda>x. kind (heap s x)) (lines_of s key))"
  by (auto simp: kinds_distinct_def lines_of_def list_all_iff split: option.splits dest!: map_of_SomeD)

lemma set_update_cases: "e \<in> set (AList.update k v al) \<Longrightarrow> e = (k, v) \<or> e \<in> set al"
  by (induction al) (auto split: if_splits)

lemma kinds_distinct_add:
  assumes "kinds_distinct s"
    and "kind (heap s line) \<notin> (\<lambda>x. kind (heap s x)) ` set (lines_of s key)"
  shows "kinds_distinct (destroy_stream h (setitem key (lines_of s key @ [line]) (snd (getitem key s))))"
proof -
  have d: "distinct (map (\<lambda>x. kind (heap s x)) (lines_of s key @ [line]))"
    using kinds_distinct_lines_of [OF assms(1), of key] assms(2) by auto
  show ?thesis
    unfolding kinds_distinct_def list_all_iff
  proof
    fix e
    assume "e \<in> set (data (destroy_stream h (setitem key (lines_of s key @ [line]) (snd (getitem key s)))))"
    then have "e \<in> set (AList.update key (lines_of s key @ [line]) (data s))"
      by (simp add: setitem_getitem)
    then have "e = (key, lines_of s key @ [line]) \<or> e \<in> set (data s)"
      by (rule set_update_cases)
    then show "distinct (map (\<lambda>x. kind (heap (destroy_stream h (setitem key (lines_of s key @ [line]) (snd (getitem key s)))) x)) (snd e))"
      using d assms(1) by (auto simp: setitem_def kinds_distinct_def list_all_iff)
  qed
qed

lemma heap0_simps: "heap0 0 = line_A" "heap0 (Suc 0) = line_B" "heap0 2 = line_C"
  by (simp_all add: heap0_def)

lemma key_12_5: "get_structpair_key (Id_str ''5'') (Id_str ''1,2'') = ''1,2|5''"
  by (simp add: get_structpair_key_def)

lemma kind_simps: "kind line_A = ''HydrogenBond''" "kind line_B = ''HydrogenBond''" "kind line_C = ''Ionic''"
  by (simp_all add: line_A_def line_B_def line_C_def)

text \<open>
  What \<open>add_line\<close> guarantees. Let \<open>line\<close> be a line whose pair key is that of the
  structures \<open>struct1\<close> and \<open>struct2\<close>. \<open>add_line\<close> succeeds, and in the manager it leaves:
  if the pair had no line of that kind, \<open>get_lines_for_structure_pair\<close> on the pair holds
  \<open>line\<close> exactly once (and the query changes nothing); adding any second line with the
  same pair key and the same kind leaves the manager as it is; and if no list held two
  lines of one kind before, none does afterwards, the pair's list holding exactly one
  line of that kind.
\<close>

lemma add_line_dedup:
  assumes pair: "get_structpair_key_for_line (heap s line) =
      get_structpair_key (Id_str (struct_index struct1)) (Id_str (struct_index struct2))"
  shows "\<exists>s1. add_line h (Shapes_line line) s = Inr s1
     \<and> (kind (heap s line) \<notin> (\<lambda>x. kind (heap s x)) ` set (lines_of s (get_structpair_key_for_line (heap s line)))
          \<longrightarrow> count_list (fst (get_lines_for_structure_pair struct1 struct2 s1)) line = 1
              \<and> snd (get_lines_for_structure_pair struct1 struct2 s1) = s1)
     \<and> (\<forall>line2. get_structpair_key_for_line (heap s1 line2) = get_structpair_key_for_line (heap s line)
            \<and> kind (heap s1 line2) = kind (heap s line)
          \<longrightarrow> add_line h (Shapes_line line2) s1 = Inr s1)
     \<and> (kinds_distinct s \<longrightarrow>
           kinds_distinct s1
           \<and> length (filter (\<lambda>x. kind (heap s1 x) = kind (heap s line))
                (fst (get_lines_for_structure_pair struct1 struct2 s1))) = 1)"
proof -
  let ?key = "get_structpair_key_for_line (heap s line)"
  let ?k = "\<lambda>x. kind (heap s x)"
  have get: "get_lines_for_structure_pair struct1 struct2 t = getitem ?key t" for t
    by (simp add: get_lines_for_structure_pair_def pair)
  show ?thesis
  proof (cases "?k line \<in> ?k ` set (lines_of s ?key)")
    case True
    then have r: "add_line h (Shapes_line line) s = Inr s"
      by (simp add: add_line_result Let_def)
    from True obtain w where w: "w \<in> set (lines_of s ?key)" "?k w = ?k line" by auto
    have one: "length (filter (\<lambda>x. ?k x = ?k line) (lines_of s ?key)) = 1" if "kinds_distinct s"
      using distinct_map_filter_one [OF kinds_distinct_lines_of [OF that, of ?key] w(1)] w(2) by simp
    show ?thesis
      using True r one by (auto simp: add_line_result Let_def get fst_getitem)
  next
    case False
    let ?s1 = "destroy_stream h (setitem ?key (lines_of s ?key @ [line]) (snd (getitem ?key s)))"
    have r: "add_line h (Shapes_line line) s = Inr ?s1"
      using False by (simp add: add_line_result Let_def)
    have l1: "lines_of ?s1 ?key = lines_of s ?key @ [line]"
      by (rule lines_of_add)
    have hp: "heap ?s1 = heap s"
      by (simp add: setitem_def)
    from False have notin: "line \<notin> set (lines_of s ?key)" by auto
    have m: "map_of (data ?s1) ?key = Some (lines_of s ?key @ [line])"
      by (simp add: setitem_getitem map_of_update_same)
    have c: "count_list (lines_of s ?key @ [line]) line = 1"
      using notin by (simp add: count_list_0_iff)
    have second: "add_line h (Shapes_line line2) ?s1 = Inr ?s1"
      if "get_structpair_key_for_line (heap ?s1 line2) = ?key" "kind (heap ?s1 line2) = ?k line" for line2
      using that by (simp add: add_line_result l1 hp Let_def)
    have inv: "kinds_distinct ?s1" if "kinds_distinct s"
      using kinds_distinct_add [OF that False] .
    have "\<forall>x\<in>set (lines_of s ?key). ?k x \<noteq> ?k line"
      using False by (metis imageI)
    then have "length (filter (\<lambda>x. ?k x = ?k line) (lines_of s ?key)) = 0"
      by (simp add: filter_empty_conv)
    then have one: "length (filter (\<lambda>x. ?k x = ?k line) (lines_of s ?key @ [line])) = 1"
      by simp
    show ?thesis
      apply (rule exI [of _ ?s1])
      using r c second inv one
      by (simp add: get fst_getitem l1 hp getitem_present [OF m])
  qed
qed


lemma add_line_dedup_example:
  "get_structpair_key_for_line (heap (new_manager heap0) 0) =
      get_structpair_key (Id_str (struct_index struct_5)) (Id_str (struct_index struct_12))
   \<and> kinds_distinct (new_manager heap0)
   \<and> lines_of (new_manager heap0) ''1,2|5'' = []
   \<and> (case add_line host_ok (Shapes_line 0) (new_manager heap0) of
         Inl e \<Rightarrow> False
       | Inr s1 \<Rightarrow>
           data s1 = [(''1,2|5'', [0])]
           \<and> fst (get_lines_for_structure_pair struct_5 struct_12 s1) = [0]
           \<and> get_structpair_key_for_line (heap s1 1) = ''1,2|5''
           \<and> kind (heap s1 1) = kind (heap s1 0)
           \<and> (case add_line host_ok (Shapes_line 1) s1 of
                 Inl e \<Rightarrow> False
               | Inr s2 \<Rightarrow> data s2 = [(''1,2|5'', [0])])
           \<and> kinds_distinct s1)"
  using add_line_dedup [of "new_manager heap0" 0 struct_5 struct_12 host_ok]
  by (simp add: add_line_def new_manager_def heap0_simps key_A key_B key_12_5 kind_simps
      struct_5_def struct_12_def lines_of_def kinds_distinct_def
      get_lines_for_structure_pair_def getitem_def setitem_def destroy_stream_def Let_def)

text \<open>
  C3 (the code departs from it). Two lines of different kinds are added for one pair
  before the host has numbered them, so both carry the index \<open>-1\<close>; \<open>add_lines\<close> caches
  both and no list holds two lines of one kind. In the next update pass \<open>_update_line\<close>
  looks the second line up by its index, finds the first line, and overwrites it: the
  pair's list then holds the ionic line twice and the hydrogen bond is gone.
\<close>

theorem update_line_duplicates_line:
  "(case add_lines host_ok [Shapes_line 0, Shapes_line 1] (new_manager heap_unnumbered) of
      Inl e \<Rightarrow> False
    | Inr s0 \<Rightarrow>
        data s0 = [(''1,2|5'', [0, 1])]
        \<and> kinds_distinct s0
        \<and> (case update_interaction_lines host_ok settings0 [frame_125] s0 of
              Inl e \<Rightarrow> False
            | Inr s1 \<Rightarrow>
                data s1 = [(''1,2|5'', [1, 1])]
                \<and> map (\<lambda>x. kind (heap s1 x)) (lines_of s1 ''1,2|5'') = [''Ionic'', ''Ionic'']
                \<and> \<not> kinds_distinct s1))"
proof -
  have h: "heap_unnumbered 0 = hbond_unnumbered" "heap_unnumbered (Suc 0) = ionic_unnumbered"
    by (simp_all add: heap_unnumbered_def)
  have k: "get_structpair_key_for_line hbond_unnumbered = ''1,2|5''"
      "get_structpair_key_for_line ionic_unnumbered = ''1,2|5''"
    using key_A
    by (simp_all add: get_structpair_key_for_line_def hbond_unnumbered_def ionic_unnumbered_def)
  have kd: "kind hbond_unnumbered = ''HydrogenBond''" "kind ionic_unnumbered = ''Ionic''"
    by (simp_all add: hbond_unnumbered_def ionic_unnumbered_def line_A_def)
  show ?thesis
    apply (simp add: add_line_def new_manager_def h k kd getitem_def setitem_def
        destroy_stream_def kinds_distinct_def Let_def)
    apply (simp add: update_interaction_lines_def all_lines_def emit_def Let_def h host_ok_def
        hbond_unnumbered_def ionic_unnumbered_def line_A_def settings0_def line_in_frame_def
        atom_iter_def frame_125_def current_molecule_def mol_atoms_def chain_atoms_def Color_def
        clamp_byte_def rgba_of_def update_line_def get_structpair_key_def getitem_def setitem_def
        lines_of_def kinds_distinct_def)
    done
qed

text \<open>
  C10. Asking for the lines of a pair whose key is not in the cache returns the empty
  list and inserts that key with an empty list: the key was absent before the query and
  is present afterwards, it shows up (with the empty list) when the items are iterated,
  and a second query finds it and changes nothing more.
\<close>

theorem get_lines_for_structure_pair_autovivifies:
  assumes absent: "map_of (data s)
      (get_structpair_key (Id_str (struct_index struct1)) (Id_str (struct_index struct2))) = None"
  shows "let key = get_structpair_key (Id_str (struct_index struct1)) (Id_str (struct_index struct2));
             (found, s') = get_lines_for_structure_pair struct1 struct2 s
         in found = []
            \<and> key \<notin> fst ` set (data s)
            \<and> s' = s\<lparr>data := data s @ [(key, [])]\<rparr>
            \<and> map_of (data s') key = Some []
            \<and> (key, []) \<in> set (sort_key fst (data s'))
            \<and> get_lines_for_structure_pair struct1 struct2 s' = ([], s')"
proof -
  let ?key = "get_structpair_key (Id_str (struct_index struct1)) (Id_str (struct_index struct2))"
  from absent have notin: "?key \<notin> fst ` set (data s)"
    by (simp add: map_of_eq_None_iff)
  have m: "map_of (data s @ [(?key, [])]) ?key = Some []"
    using absent by (simp add: map_add_def)
  show ?thesis
    using absent notin m
    by (simp add: get_lines_for_structure_pair_def getitem_def Let_def)
qed

theorem get_lines_for_structure_pair_autovivifies_witness:
  "map_of (data cache_AC) (get_structpair_key (Id_str (struct_index struct_5)) (Id_str (struct_index struct_5))) = None
   \<and> fst (get_lines_for_structure_pair struct_5 struct_5 cache_AC) = []
   \<and> data (snd (get_lines_for_structure_pair struct_5 struct_5 cache_AC))
       = [(''1,2|5'', [0]), (''3|4'', [2]), (''5|5'', [])]"
  using get_lines_for_structure_pair_autovivifies [of cache_AC struct_5 struct_5]
  by (simp add: cache_AC_def struct_5_def get_structpair_key_def Let_def split: prod.splits)

section \<open>The update pass and the stream\<close>

lemma set_all_lines: "set (all_lines s) = (\<Union>e\<in>set (data s). set (snd e))"
  by (simp add: all_lines_def)

lemma lines_of_subset: "set (lines_of s key) \<subseteq> set (all_lines s)"
proof (cases "map_of (data s) key")
  case None
  then show ?thesis by (simp add: lines_of_def)
next
  case (Some ll)
  then have "(key, ll) \<in> set (data s)" by (rule map_of_SomeD)
  then show ?thesis using Some by (force simp: set_all_lines lines_of_def)
qed

lemma set_replace_first: "set (replace_first P x xs) \<subseteq> insert x (set xs)"
  by (induction xs) auto

lemma update_line_alt:
  "update_line line s =
     (let key = get_structpair_key (fst (structure_indices (heap s line)))
                  (snd (structure_indices (heap s line)))
      in setitem key
           (replace_first (\<lambda>stored_line. line_index (heap s stored_line) = line_index (heap s line))
              line (lines_of s key)) (snd (getitem key s)))"
  by (simp add: update_line_def Let_def case_prod_beta fst_getitem)

lemma heap_update_line [simp]: "heap (update_line line s) = heap s"
  and stream_update_line [simp]: "stream (update_line line s) = stream s"
  and events_update_line [simp]: "events (update_line line s) = events s"
  by (simp_all add: update_line_alt Let_def)

lemma all_lines_update_line: "set (all_lines (update_line line s)) \<subseteq> insert line (set (all_lines s))"
proof
  fix x
  assume "x \<in> set (all_lines (update_line line s))"
  then obtain e where e: "e \<in> set (data (update_line line s))" and x: "x \<in> set (snd e)"
    by (auto simp: set_all_lines)
  let ?key = "get_structpair_key (fst (structure_indices (heap s line)))
                  (snd (structure_indices (heap s line)))"
  let ?v = "replace_first (\<lambda>stored_line. line_index (heap s stored_line) = line_index (heap s line))
              line (lines_of s ?key)"
  from e have "e \<in> set (AList.update ?key ?v (data s))"
    by (simp add: update_line_alt Let_def setitem_getitem)
  then have "e = (?key, ?v) \<or> e \<in> set (data s)"
    by (rule set_update_cases)
  then show "x \<in> insert line (set (all_lines s))"
  proof
    assume "e = (?key, ?v)"
    with x have "x \<in> insert line (set (lines_of s ?key))"
      using set_replace_first by fastforce
    then show ?thesis using lines_of_subset by auto
  next
    assume "e \<in> set (data s)"
    with x show ?thesis by (auto simp: set_all_lines)
  qed
qed

lemma recolor_kind [simp]: "kind (recolor idata cs L) = kind L"
  and recolor_atom1 [simp]: "atom1_idx_arr (recolor idata cs L) = atom1_idx_arr L"
  and recolor_atom2 [simp]: "atom2_idx_arr (recolor idata cs L) = atom2_idx_arr L"
  by (simp_all add: recolor_def split: option.splits)

lemma recolor_idem [simp]: "recolor idata cs (recolor idata cs L) = recolor idata cs L"
  by (simp add: recolor_def line_in_frame_def split: option.splits)

lemma update_loop_effect:
  assumes "\<forall>l\<in>set ls. idata (kind (heap s l)) \<noteq> None"
  shows "\<exists>s' nc'. update_loop idata cs ls s nc = Inr (s', nc')
           \<and> heap s' = (\<lambda>x. if x \<in> set ls then recolor idata cs (heap s x) else heap s x)
           \<and> stream s' = stream s \<and> events s' = events s
           \<and> set (all_lines s') \<subseteq> set (all_lines s) \<union> set ls
           \<and> length nc' = length nc + 4 * length ls"
  using assms
proof (induction ls arbitrary: s nc)
  case Nil
  then show ?case by simp
next
  case (Cons l ls)
  from Cons.prems obtain fd where fd: "idata (kind (heap s l)) = Some fd" by auto
  define c where "c = (Color (form_color fd))\<lparr>alpha := (if \<not> visible fd \<or> \<not> line_in_frame (heap s l) (atom_iter cs) then 0 else 255)\<rparr>"
  define s1 where "s1 = s\<lparr>heap := (heap s)(l := (heap s l)\<lparr>color := c\<rparr>)\<rparr>"
  define s2 where "s2 = update_line l s1"
  have rc: "(heap s l)\<lparr>color := c\<rparr> = recolor idata cs (heap s l)"
    by (simp add: recolor_def fd c_def)
  have h2: "heap s2 = (heap s)(l := recolor idata cs (heap s l))"
    by (simp add: s2_def s1_def rc)
  have kinds: "\<forall>x\<in>set ls. idata (kind (heap s2 x)) \<noteq> None"
    using Cons.prems by (simp add: h2)
  from Cons.IH [OF kinds, of "nc @ rgba_of c"]
  obtain s' nc' where IH: "update_loop idata cs ls s2 (nc @ rgba_of c) = Inr (s', nc')"
      "heap s' = (\<lambda>x. if x \<in> set ls then recolor idata cs (heap s2 x) else heap s2 x)"
      "stream s' = stream s2" "events s' = events s2"
      "set (all_lines s') \<subseteq> set (all_lines s2) \<union> set ls"
      "length nc' = length (nc @ rgba_of c) + 4 * length ls"
    by blast
  have step: "update_loop idata cs (l # ls) s nc = update_loop idata cs ls s2 (nc @ rgba_of c)"
    by (simp add: fd Let_def s2_def s1_def c_def)
  have al1: "set (all_lines s1) = set (all_lines s)"
    by (simp add: set_all_lines s1_def)
  have al: "set (all_lines s') \<subseteq> set (all_lines s) \<union> set (l # ls)"
    using IH(5) all_lines_update_line [of l s1] al1 by (auto simp: s2_def)
  have hp: "heap s' = (\<lambda>x. if x \<in> set (l # ls) then recolor idata cs (heap s x) else heap s x)"
    unfolding IH(2) h2 by (rule ext) simp
  have st: "stream s' = stream s" "events s' = events s"
    using IH(3,4) by (simp_all add: s2_def s1_def)
  show ?case
    using IH(1,6) st al hp unfolding step
    by (simp add: rgba_of_def)
qed




text \<open>
  C7. If no stream is live and the host gives no stream, \<open>update_interaction_lines\<close>
  returns normally having only logged (the debug line, the request to the host and
  the error): the cache, every line and the absent stream are as before, and nothing
  was pushed. If there are no complexes, or the cache holds no line, it returns
  normally having only logged the warning.
\<close>

theorem update_interaction_lines_aborts:
  "(complexes \<noteq> [] \<and> all_lines s \<noteq> [] \<and> stream s = None
      \<and> create_writing_stream plugin (map (\<lambda>line. line_index (heap s line)) (all_lines s)) = None
     \<longrightarrow> update_interaction_lines plugin idata complexes s =
          Inr (s\<lparr>events := events s @
                  [Log_debug ''Recreating Stream.'',
                   Create_writing_stream (map (\<lambda>line. line_index (heap s line)) (all_lines s)),
                   Log_error ''Failed to Create stream.'']\<rparr>))
   \<and> (complexes = []
     \<longrightarrow> update_interaction_lines plugin idata complexes s =
          Inr (s\<lparr>events := events s @ [Log_warning ''No complexes to update, returning'']\<rparr>))
   \<and> (complexes \<noteq> [] \<and> all_lines s = []
     \<longrightarrow> update_interaction_lines plugin idata complexes s =
          Inr (s\<lparr>events := events s @ [Log_warning ''No interaction lines to update, returning'']\<rparr>))"
  by (cases "stream s") (auto simp: update_interaction_lines_def emit_def Let_def)

theorem update_interaction_lines_aborts_witness:
  "[frame_125] \<noteq> [] \<and> all_lines cache_AC \<noteq> [] \<and> stream cache_AC = None
   \<and> create_writing_stream host_refusing
        (map (\<lambda>line. line_index (heap cache_AC line)) (all_lines cache_AC)) = None
   \<and> all_lines (new_manager heap0) = []
   \<and> (case update_interaction_lines host_refusing settings0 [frame_125] cache_AC of
         Inl e \<Rightarrow> False
       | Inr s1 \<Rightarrow>
           data s1 = data cache_AC \<and> stream s1 = None
           \<and> map (\<lambda>l. color (heap s1 l)) [0, 1, 2] = [black, black, black]
           \<and> events s1 = [Log_debug ''Recreating Stream.'', Create_writing_stream [10, 12],
                           Log_error ''Failed to Create stream.''])
   \<and> (case update_interaction_lines host_ok settings0 [] cache_AC of
         Inl e \<Rightarrow> False
       | Inr s1 \<Rightarrow>
           data s1 = data cache_AC \<and> stream s1 = None
           \<and> events s1 = [Log_warning ''No complexes to update, returning''])
   \<and> (case update_interaction_lines host_ok settings0 [frame_125] (new_manager heap0) of
         Inl e \<Rightarrow> False
       | Inr s1 \<Rightarrow>
           data s1 = [] \<and> stream s1 = None
           \<and> events s1 = [Log_warning ''No interaction lines to update, returning''])"
  using update_interaction_lines_aborts [of "[frame_125]" cache_AC host_refusing settings0]
    update_interaction_lines_aborts [of "[]" cache_AC host_ok settings0]
    update_interaction_lines_aborts [of "[frame_125]" "new_manager heap0" host_ok settings0]
  by (simp add: cache_AC_def all_lines_def host_refusing_def new_manager_def heap0_simps
      line_A_def line_B_def line_C_def)

section \<open>Removing lines\<close>

text \<open>The two cases \<open>destroy_lines\<close> handles: a cached line is removed, a line whose key
  is absent is logged; either way the loop goes on.\<close>

lemma destroy_lines_loop_cases:
  "map_of (data s) (get_structpair_key_for_line (heap s line)) = None \<Longrightarrow>
     destroy_lines_loop (line # rest) s =
       destroy_lines_loop rest (emit (Log_warning ''Line not found in manager while deleting.'') s)"
  "map_of (data s) (get_structpair_key_for_line (heap s line)) = Some line_list \<Longrightarrow>
     line \<in> set line_list \<Longrightarrow>
     destroy_lines_loop (line # rest) s =
       destroy_lines_loop rest
         (setitem (get_structpair_key_for_line (heap s line)) (remove1 line line_list) s)"
  "map_of (data s) (get_structpair_key_for_line (heap s line)) = Some line_list \<Longrightarrow>
     line \<notin> set line_list \<Longrightarrow>
     destroy_lines_loop (line # rest) s = Inl (ValueError, s)"
  by (simp_all add: Let_def)

text \<open>
  C2 (the code departs from it). \<open>line_B\<close> has the pair key and kind of \<open>line_A\<close>, so
  \<open>add_lines\<close> on the three lines caches \<open>line_A\<close> and \<open>line_C\<close> only. Destroying
  \<open>line_B\<close> and \<open>line_C\<close> then issues the bulk destroy, finds the key of \<open>line_B\<close> in the
  cache but not the line in its list, and \<open>list.remove\<close> raises \<open>ValueError\<close>: no
  warning is logged and \<open>line_C\<close> stays cached.
\<close>

theorem destroy_lines_raises_for_uncached_line:
  "(case add_lines host_ok [Shapes_line 0, Shapes_line 1, Shapes_line 2] (new_manager heap0) of
      Inl e \<Rightarrow> False
    | Inr s0 \<Rightarrow>
        data s0 = [(''1,2|5'', [0]), (''3|4'', [2])]
        \<and> (case destroy_lines [1, 2] s0 of
              Inl (e, s1) \<Rightarrow>
                e = ValueError \<and> data s1 = [(''1,2|5'', [0]), (''3|4'', [2])]
                \<and> events s1 = [Shape_destroy_multiple [1, 2]]
            | Inr s1 \<Rightarrow> False))"
  by (simp add: add_line_def new_manager_def heap0_simps key_A key_B key_C kind_simps
      getitem_def setitem_def destroy_stream_def destroy_lines_def emit_def Let_def)

text \<open>The insertion path of \<open>add_line\<close> does invalidate the stream (unless the host's
  \<open>destroy()\<close> raises \<open>KeyError\<close>, in which case the handle is kept), and an update that
  finds no stream binds a new one to the indices of \<open>all_lines\<close>, which are in ascending
  key order.\<close>

lemma add_line_invalidates_stream:
  assumes "kind (heap s line) \<notin>
      (\<lambda>x. kind (heap s x)) ` set (lines_of s (get_structpair_key_for_line (heap s line)))"
    and "\<forall>st. stream s = Some st \<longrightarrow> \<not> stream_destroy_raises h st"
  shows "\<exists>s1. add_line h (Shapes_line line) s = Inr s1 \<and> stream s1 = None"
  using assms
  by (cases "stream s") (auto simp: add_line_result Let_def destroy_stream_def emit_def)

lemma update_creates_stream:
  assumes "complexes \<noteq> []" "all_lines s \<noteq> []" "stream s = None"
    and "create_writing_stream plugin (map (\<lambda>line. line_index (heap s line)) (all_lines s)) = Some i"
    and settings: "\<forall>line\<in>set (all_lines s). idata (kind (heap s line)) \<noteq> None"
  shows "\<exists>s'. update_interaction_lines plugin idata complexes s = Inr s'
     \<and> stream s' = Some \<lparr>stream_id = i, bound = map (\<lambda>line. line_index (heap s line)) (all_lines s)\<rparr>"
proof -
  define idxs where "idxs = map (\<lambda>line. line_index (heap s line)) (all_lines s)"
  define s1 where "s1 = (emit (Create_writing_stream idxs) (emit (Log_debug ''Recreating Stream.'') s))
          \<lparr>stream := Some \<lparr>stream_id = i, bound = idxs\<rparr>\<rparr>"
  have "\<forall>l\<in>set (all_lines s). idata (kind (heap s1 l)) \<noteq> None"
    using settings by (simp add: s1_def emit_def)
  from update_loop_effect [OF this, of complexes "[]"]
  obtain s2 nc where loop: "update_loop idata complexes (all_lines s) s1 [] = Inr (s2, nc)"
      and st2: "stream s2 = stream s1"
    by blast
  have "update_interaction_lines plugin idata complexes s =
      Inr (emit (Stream_update \<lparr>stream_id = i, bound = idxs\<rparr> nc) s2)"
    using assms(1-4) loop st2
    unfolding update_interaction_lines_def Let_def idxs_def [symmetric]
    by (simp add: s1_def idxs_def)
  then show ?thesis
    using st2 by (simp add: emit_def s1_def idxs_def)
qed

lemma all_lines_key_order: "\<exists>entries. all_lines s = concat (map snd entries)
    \<and> sorted (map fst entries) \<and> mset entries = mset (data s)"
  by (rule exI [of _ "sort_key fst (data s)"]) (simp add: all_lines_def)

text \<open>
  C1 (the code departs from it). With a stream live for the indices 10 and 12,
  \<open>destroy_lines\<close> removes \<open>line_A\<close> and leaves the stream in place; the next update asks
  the host for no stream and pushes the four values of the one remaining line to the
  stream bound to the two old indices.
\<close>

theorem destroy_lines_keeps_stale_stream:
  "(case destroy_lines [0] cache_AC_streaming of
      Inl e \<Rightarrow> False
    | Inr s1 \<Rightarrow>
        all_lines s1 = [2]
        \<and> stream s1 = Some \<lparr>stream_id = 1, bound = [10, 12]\<rparr>
        \<and> events s1 = [Shape_destroy_multiple [0]]
        \<and> (case update_interaction_lines host_ok settings0 [frame_125] s1 of
              Inl e \<Rightarrow> False
            | Inr s2 \<Rightarrow>
                stream s2 = Some \<lparr>stream_id = 1, bound = [10, 12]\<rparr>
                \<and> events s2 = [Shape_destroy_multiple [0],
                     Stream_update \<lparr>stream_id = 1, bound = [10, 12]\<rparr> [0, 0, 255, 0]]))"
  apply (simp add: destroy_lines_def cache_AC_streaming_def cache_AC_def emit_def heap0_simps key_A setitem_def all_lines_def)
  apply (simp add: update_interaction_lines_def all_lines_def emit_def Let_def heap0_simps
     line_C_def settings0_def line_in_frame_def atom_iter_def frame_125_def current_molecule_def mol_atoms_def chain_atoms_def Color_def clamp_byte_def rgba_of_def update_line_def get_structpair_key_def getitem_def setitem_def)
  done

section \<open>utils.py: the binding site and the merge\<close>

text \<open>
  C5 (the code departs from it). The positions found by the ball query are matched
  against all atoms of the molecule, so an atom of the chain \<open>HA\<close> that sits exactly where
  a matched atom of chain \<open>A\<close> sits is returned too; the other atom of \<open>HA\<close>, one unit from
  the ligand, is not.
\<close>

theorem binding_site_keeps_coincident_hetero_atom:
  "calculate_binding_site_atoms target_H [ligand_atom] 5 = Inr [target_atom, hetero_atom_same_place]
   \<and> startswith ''HA'' ''H''"
  by (simp add: calculate_binding_site_atoms_def target_H_def current_molecule_def startswith_def
      chain_atoms_def mol_atoms_def query_ball_point_def in_ball_def ligand_atom_def
      target_atom_def hetero_atom_same_place_def hetero_atom_near_def Let_def upt_rec)

text \<open>The other half of the statement holds: an atom of a chain not named \<open>H...\<close> in the current
  molecule, at the position of a ligand atom, is returned for every positive radius.\<close>

lemma binding_site_includes_coincident_atom:
  assumes mol: "current_molecule target_reference = Some mol"
    and ch: "ch \<in> set (chains mol)" "\<not> startswith (chain_name ch) ''H''"
    and at: "targ_atom \<in> set (chain_atoms ch)"
    and lig: "lig \<in> set ligand_atoms" "position lig = position targ_atom"
    and size: "0 < site_size"
  shows "\<exists>found. calculate_binding_site_atoms target_reference ligand_atoms site_size = Inr found
           \<and> targ_atom \<in> set found"
proof -
  define target_atoms where "target_atoms =
      concat (map chain_atoms (filter (\<lambda>ch. \<not> startswith (chain_name ch) ''H'') (chains mol)))"
  define tree where "tree = map position target_atoms"
  have ta: "targ_atom \<in> set target_atoms"
    using ch at by (auto simp: target_atoms_def)
  then obtain i where i: "i < length target_atoms" "target_atoms ! i = targ_atom"
    by (auto simp: in_set_conv_nth)
  have ball: "in_ball site_size (tree ! i) (position lig)"
    using i size lig(2) by (cases "position targ_atom") (simp add: tree_def in_ball_def)
  have qi: "i \<in> set (query_ball_point tree (position lig) site_size)"
    using i ball by (simp add: query_ball_point_def tree_def)
  have near: "position targ_atom \<in>
      set (concat (map (map (\<lambda>point_index. tree ! point_index))
         (map (\<lambda>x. query_ball_point tree x site_size) (map position ligand_atoms))))"
  proof -
    have "tree ! i = position targ_atom" using i by (simp add: tree_def)
    then show ?thesis using qi lig(1) by (force simp: image_iff)
  qed
  have inmol: "targ_atom \<in> set (mol_atoms mol)"
    using ch(1) at by (auto simp: mol_atoms_def)
  have ne: "tree \<noteq> []" "map position ligand_atoms \<noteq> []"
    using ta lig(1) by (auto simp: tree_def)
  have eq: "calculate_binding_site_atoms target_reference ligand_atoms site_size =
      (if tree = [] \<or> map position ligand_atoms = [] then Inl ValueError
       else Inr (filter (\<lambda>targ_atom. position targ_atom \<in>
          set (concat (map (map (\<lambda>point_index. tree ! point_index))
            (map (\<lambda>x. query_ball_point tree x site_size) (map position ligand_atoms)))))
          (mol_atoms mol)))"
    unfolding calculate_binding_site_atoms_def mol Let_def tree_def target_atoms_def option.case
    by (rule refl)
  show ?thesis
    unfolding eq using near inmol ne by simp
qed

lemma comp_index_align_to [simp]: "comp_index (align_to transform c r) = comp_index c"
  by (simp add: align_to_def move_atoms_def)

lemma current_molecule_align_to:
  "current_molecule c \<noteq> None \<Longrightarrow> current_molecule (align_to transform c r) \<noteq> None"
  by (simp add: align_to_def move_atoms_def current_molecule_def split: if_splits)

lemma comp_chains_extract:
  "comp_chains (extract_residues_from_complex c residue_list name) =
     rebuilt_chains (\<lambda>res. res_index res \<in> set (map res_index residue_list)) c"
  by (simp add: extract_residues_from_complex_def rebuilt_chains_def Let_def comp_chains_def
      cong: if_cong)

lemma extract_selected_chains:
  "comp_chains (extract_residues_from_complex c
      (filter (\<lambda>res. list_ex selected (res_atoms res)) (comp_residues c)) name)
   = rebuilt_chains (shares_index_with_selected c) c"
proof -
  have "(\<lambda>res. res_index res \<in> set (map res_index
        (filter (\<lambda>res. list_ex selected (res_atoms res)) (comp_residues c))))
      = shares_index_with_selected c"
    by (rule ext)
      (auto simp: shares_index_with_selected_def has_selected_atom_def list_ex_iff image_iff)
  then show ?thesis
    by (simp only: comp_chains_extract)
qed

lemma merge_loop_chains:
  assumes "\<forall>c\<in>set complexes. current_molecule c \<noteq> None"
  shows "merge_loop transform complexes align_reference selected_atoms_only mol =
     Inr (mol\<lparr>chains := chains mol @
        concat (map (contribution transform align_reference selected_atoms_only) complexes)\<rparr>)"
  using assms
proof (induction complexes arbitrary: mol)
  case Nil
  then show ?case by simp
next
  case (Cons c complexes)
  define cmp where "cmp = align_to transform c align_reference"
  from Cons.prems have "current_molecule cmp \<noteq> None"
    by (simp add: cmp_def current_molecule_align_to)
  then obtain m where m: "current_molecule cmp = Some m" by auto
  have IH: "merge_loop transform complexes align_reference selected_atoms_only mol' =
     Inr (mol'\<lparr>chains := chains mol' @
        concat (map (contribution transform align_reference selected_atoms_only) complexes)\<rparr>)"
    for mol'
    using Cons.IH Cons.prems by simp
  have ex: "comp_chains (extract_residues_from_complex cmp
      (filter (\<lambda>res. list_ex selected (res_atoms res)) (comp_residues cmp)) [])
      = rebuilt_chains (shares_index_with_selected cmp) cmp"
    by (rule extract_selected_chains)
  have idx: "comp_index cmp = comp_index c"
    by (simp add: cmp_def)
  have step: "merge_loop transform (c # complexes) align_reference selected_atoms_only mol =
      merge_loop transform complexes align_reference selected_atoms_only
        (mol\<lparr>chains := chains mol @ contribution transform align_reference selected_atoms_only c\<rparr>)"
  proof (cases "selected_atoms_only \<and> comp_index c \<noteq> comp_index align_reference")
    case True
    then have "contribution transform align_reference selected_atoms_only c =
        rebuilt_chains (shares_index_with_selected cmp) cmp"
      by (simp add: contribution_def cmp_def)
    then show ?thesis
      using True m ex idx by (simp add: cmp_def [symmetric] Let_def)
  next
    case False
    then have "contribution transform align_reference selected_atoms_only c = chains m"
      using m by (auto simp: contribution_def cmp_def frame_chains_def)
    then show ?thesis
      using False m idx by (auto simp: cmp_def [symmetric] Let_def)
  qed
  show ?case
    unfolding step IH by simp
qed

text \<open>
  In general: if every complex has a molecule at its current frame, the merged molecule's
  chains are the contributions of the aligned complexes, in input order.
\<close>

lemma merge_complexes_chains:
  assumes "\<forall>c\<in>set complexes. current_molecule c \<noteq> None"
  shows "merge_complexes transform complexes align_reference selected_atoms_only =
     Inr (Complex_new\<lparr>molecules := [\<lparr>chains =
        concat (map (contribution transform align_reference selected_atoms_only) complexes)\<rparr>]\<rparr>)"
  by (simp add: merge_complexes_def merge_loop_chains [OF assms])

text \<open>Where the residue indices of a complex are unique, the residues that share their
  index with a residue holding a selected atom are the residues holding one.\<close>

lemma rebuilt_chains_unique_index:
  assumes "distinct (map res_index (comp_residues c))"
  shows "rebuilt_chains (shares_index_with_selected c) c = rebuilt_chains has_selected_atom c"
proof -
  have eq: "shares_index_with_selected c res = has_selected_atom res"
    if "res \<in> set (comp_residues c)" for res
  proof
    assume "shares_index_with_selected c res"
    then obtain r' where r: "r' \<in> set (comp_residues c)" "res_index r' = res_index res" "has_selected_atom r'"
      by (auto simp: shares_index_with_selected_def list_ex_iff)
    from assms have "inj_on res_index (set (comp_residues c))"
      by (simp add: distinct_map)
    with r(1,2) that have "r' = res" by (auto dest: inj_onD)
    with r(3) show "has_selected_atom res" by simp
  next
    assume "has_selected_atom res"
    with that show "shares_index_with_selected c res"
      by (auto simp: shares_index_with_selected_def list_ex_iff)
  qed
  have "filter (shares_index_with_selected c) (residues ch) = filter has_selected_atom (residues ch)"
    if "ch \<in> set (comp_chains c)" for ch
    using that by (intro filter_cong refl eq) (auto simp: comp_residues_def)
  then show ?thesis
    unfolding rebuilt_chains_def
    by (intro arg_cong [where f = concat] map_cong refl) simp
qed

lemma aligned_examples:
  "align_to translate cplx_A cplx_A = cplx_A"
  "align_to translate cplx_B cplx_A = cplx_B_aligned"
  by (simp_all add: align_to_def move_atoms_def translate_def comp_pose_def cplx_A_def cplx_B_def
      cplx_B_aligned_def chain_a1_def chain_b1_def chain_b1_aligned_def res_sel_def res_unsel_def
      res_sel_aligned_def res_unsel_aligned_def)

lemma current_molecule_examples:
  "current_molecule cplx_A = Some \<lparr>chains = [chain_a1]\<rparr>"
  "current_molecule cplx_B = Some \<lparr>chains = [chain_b1]\<rparr>"
  "current_molecule cplx_B_aligned = Some \<lparr>chains = [chain_b1_aligned]\<rparr>"
  by (simp_all add: current_molecule_def cplx_A_def cplx_B_def cplx_B_aligned_def)

lemma comp_index_examples: "comp_index cplx_A = 1" "comp_index cplx_B_aligned = 2"
  by (simp_all add: cplx_A_def cplx_B_aligned_def)

text \<open>The concrete case of the statement: without the restriction to selected atoms, the
  merge of \<open>cplx_A\<close> and \<open>cplx_B\<close> has the chain of the first and then the (aligned) chain of
  the second.\<close>

lemma merge_complexes_example:
  "merge_complexes translate [cplx_A, cplx_B] cplx_A False =
     Inr (Complex_new\<lparr>molecules := [\<lparr>chains = [chain_a1, chain_b1_aligned]\<rparr>]\<rparr>)"
  by (simp add: merge_complexes_def aligned_examples current_molecule_examples Let_def)

text \<open>
  C6 (the code departs from it). \<open>cplx_B\<close> is not the reference and only selected atoms
  are asked for, yet its whole chain is merged, with both residues: the second has no
  selected atom, but it shares the index of the first, and \<open>extract_residues_from_complex\<close>
  keeps a residue when its index is among the indices of the residues it was given.
\<close>

theorem merge_complexes_keeps_unselected_residue:
  "merge_complexes translate [cplx_A, cplx_B] cplx_A True =
     Inr (Complex_new\<lparr>molecules := [\<lparr>chains = [chain_a1, chain_b1_aligned]\<rparr>]\<rparr>)
   \<and> comp_index cplx_B \<noteq> comp_index cplx_A
   \<and> residues chain_b1_aligned = [res_sel_aligned, res_unsel_aligned]
   \<and> has_selected_atom res_sel_aligned
   \<and> \<not> has_selected_atom res_unsel_aligned"
proof -
  have rs: "comp_residues cplx_B_aligned = [res_sel_aligned, res_unsel_aligned]"
    and cs: "comp_chains cplx_B_aligned = [chain_b1_aligned]"
    by (simp_all add: comp_residues_def comp_chains_def cplx_B_aligned_def chain_b1_aligned_def)
  have sel: "has_selected_atom res_sel_aligned" "\<not> has_selected_atom res_unsel_aligned"
    by (simp_all add: has_selected_atom_def res_sel_aligned_def res_unsel_aligned_def)
  have idx: "res_index res_sel_aligned = - 1" "res_index res_unsel_aligned = - 1"
    by (simp_all add: res_sel_aligned_def res_unsel_aligned_def)
  have ex: "comp_chains (extract_residues_from_complex cplx_B_aligned [res_sel_aligned] []) =
      [chain_b1_aligned]"
    by (simp add: extract_residues_from_complex_def comp_chains_def cs [unfolded comp_chains_def]
        Let_def idx)
      (simp add: chain_b1_aligned_def idx)
  have "merge_complexes translate [cplx_A, cplx_B] cplx_A True =
     Inr (Complex_new\<lparr>molecules := [\<lparr>chains = [chain_a1, chain_b1_aligned]\<rparr>]\<rparr>)"
    using sel
    by (simp add: merge_complexes_def aligned_examples current_molecule_examples
        comp_index_examples rs ex has_selected_atom_def Let_def)
  moreover have "comp_index cplx_B \<noteq> comp_index cplx_A"
    by (simp add: cplx_A_def cplx_B_def)
  moreover have "residues chain_b1_aligned = [res_sel_aligned, res_unsel_aligned]"
    by (simp add: chain_b1_aligned_def)
  ultimately show ?thesis
    using sel by simp
qed

end
